theory Spec2Isabelle
  imports Main "HOL-Library.Word"
begin

section \<open>The block-height plugin of vatz-plugin-ethereum\<close>

text \<open>
  A shallow embedding of \<^verbatim>\<open>plugins/node_block_sync/main.go\<close>: the hex parser
  \<^verbatim>\<open>hexToInt64\<close> and the check \<^verbatim>\<open>pluginFeature\<close> with the package-level variables it
  reads and writes. Go's \<^verbatim>\<open>int64\<close> is a \<open>64 word\<close>, compared through \<open>sint\<close>; Go's
  \<^verbatim>\<open>int\<close> is taken at its 64-bit width (amd64, arm64), where \<^verbatim>\<open>++\<close> wraps around.
  Strings are byte lists. Logging has no effect on results or variables and is left out.
\<close>

subsection \<open>Errors\<close>

text \<open>
  The \<^verbatim>\<open>error\<close> values of the program. \<open>hexToInt64\<close> builds two with \<^verbatim>\<open>fmt.Errorf\<close>; the
  argument is the string they print after their fixed text. The errors of the HTTP client
  and of the JSON decoder come from outside and are kept by their text.
\<close>

datatype error =
    ErrParseHex string
  | ErrTooLarge string
  | ErrExternal string

fun Error :: "error \<Rightarrow> string" where
  "Error (ErrParseHex hexStr) = ''failed to parse hex string: '' @ hexStr"
| "Error (ErrTooLarge hexStr) = ''hex value too large for int64: '' @ hexStr"
| "Error (ErrExternal msg) = msg"

subsection \<open>\<^verbatim>\<open>big.Int.SetString\<close>, \<^verbatim>\<open>IsInt64\<close> and \<^verbatim>\<open>Int64\<close>\<close>

text \<open>
  \<^verbatim>\<open>math/big\<close> is Go's standard library. \<^verbatim>\<open>SetString(s, base)\<close> for a base from 2 to 36
  reads an optional sign (\<^verbatim>\<open>scanSign\<close>: one \<^verbatim>\<open>+\<close> or \<^verbatim>\<open>-\<close>), then digits while their value
  is below the base (\<^verbatim>\<open>nat.scan\<close>: \<^verbatim>\<open>0-9\<close>, \<^verbatim>\<open>a-z\<close> and \<^verbatim>\<open>A-Z\<close>, both cases counting from
  10), fails when it found no digit, and fails unless the whole string was consumed.
  An empty string fails in \<^verbatim>\<open>scanSign\<close> already, at end of input.
\<close>

definition digitVal :: "char \<Rightarrow> nat" where
  "digitVal ch =
     (let n = (of_char ch :: nat) in
      if 48 \<le> n \<and> n \<le> 57 then n - 48
      else if 97 \<le> n \<and> n \<le> 122 then n - 97 + 10
      else if 65 \<le> n \<and> n \<le> 90 then n - 65 + 10
      else 63)"

fun scanSign :: "string \<Rightarrow> (bool \<times> string) option" where
  "scanSign [] = None"
| "scanSign (ch # r) =
     (if ch = CHR ''-'' then Some (True, r)
      else if ch = CHR ''+'' then Some (False, r)
      else Some (False, ch # r))"

fun scanDigits :: "nat \<Rightarrow> nat \<Rightarrow> nat \<Rightarrow> string \<Rightarrow> nat \<times> nat \<times> string" where
  "scanDigits b z count [] = (z, count, [])"
| "scanDigits b z count (ch # r) =
     (if digitVal ch \<ge> b then (z, count, ch # r)
      else scanDigits b (z * b + digitVal ch) (Suc count) r)"

definition natScan :: "string \<Rightarrow> nat \<Rightarrow> (nat \<times> string) option" where
  "natScan r b =
     (case scanDigits b 0 0 r of
        (z, count, rest) \<Rightarrow> if count = 0 then None else Some (z, rest))"

definition SetString :: "string \<Rightarrow> nat \<Rightarrow> int option" where
  "SetString s b =
     (case scanSign s of
        None \<Rightarrow> None
      | Some (neg, r) \<Rightarrow>
          (case natScan r b of
             None \<Rightarrow> None
           | Some (z, rest) \<Rightarrow>
               if rest \<noteq> [] then None
               else Some (if neg then - int z else int z)))"

definition IsInt64 :: "int \<Rightarrow> bool" where
  "IsInt64 n = (- (2 ^ 63) \<le> n \<and> n \<le> 2 ^ 63 - 1)"

definition Int64 :: "int \<Rightarrow> 64 word" where
  "Int64 n = word_of_int n"

subsection \<open>\<^verbatim>\<open>hexToInt64\<close>\<close>

definition hexToInt64 :: "string \<Rightarrow> error + 64 word" where
  "hexToInt64 hexStr0 =
     (let hexStr = (if length hexStr0 \<ge> 2 \<and> take 2 hexStr0 = ''0x''
                    then drop 2 hexStr0 else hexStr0)
      in case SetString hexStr 16 of
           None \<Rightarrow> Inl (ErrParseHex hexStr)
         | Some n \<Rightarrow>
             if \<not> IsInt64 n then Inl (ErrTooLarge hexStr)
             else Inr (Int64 n))"

subsection \<open>\<^verbatim>\<open>fmt\<close>'s \<^verbatim>\<open>%d\<close>\<close>

definition digitChar :: "nat \<Rightarrow> char" where
  "digitChar d = char_of (48 + d)"

function fmtNat :: "nat \<Rightarrow> string" where
  "fmtNat n = (if n < 10 then [digitChar n] else fmtNat (n div 10) @ [digitChar (n mod 10)])"
  by pat_completeness auto
termination
  by (relation "measure id") auto

definition fmtInt :: "int \<Rightarrow> string" where
  "fmtInt i = (if i < 0 then CHR ''-'' # fmtNat (nat (- i)) else fmtNat (nat i))"

subsection \<open>\<^verbatim>\<open>pluginFeature\<close>\<close>

text \<open>
  The two enumerations are declared in the \<^verbatim>\<open>vatz-proto\<close> package; the program names
  \<^verbatim>\<open>SEVERITY_UNKNOWN\<close>, \<^verbatim>\<open>SEVERITY_INFO\<close>, \<^verbatim>\<open>SEVERITY_WARNING\<close>, \<^verbatim>\<open>SEVERITY_CRITICAL\<close>,
  \<^verbatim>\<open>STATE_NONE\<close>, \<^verbatim>\<open>STATE_SUCCESS\<close> and \<^verbatim>\<open>STATE_FAILURE\<close>.
\<close>

datatype SEVERITY =
    SEVERITY_UNKNOWN
  | SEVERITY_WARNING
  | SEVERITY_ERROR
  | SEVERITY_CRITICAL
  | SEVERITY_INFO

datatype STATE =
    STATE_NONE
  | STATE_PENDING
  | STATE_INPROGRESS
  | STATE_SUCCESS
  | STATE_FAILURE
  | STATE_TIMEOUT

record BlockHeightResponse =
  JsonRPC :: string
  Result :: string
  ID :: "64 word"

record CallResponse =
  FuncName :: string
  Message :: string
  Severity :: SEVERITY
  State :: STATE

text \<open>
  The package-level variables \<^verbatim>\<open>pluginFeature\<close> uses. \<^verbatim>\<open>criticalCount\<close> is set once from
  the \<^verbatim>\<open>-critical\<close> flag (default 3); the other two start at Go's zero value.
\<close>

record globals =
  prevHeight :: "64 word"
  warningCount :: "64 word"
  criticalCount :: "64 word"

definition defaultCriticalCount :: "64 word" where
  "defaultCriticalCount = 3"

definition init :: "64 word \<Rightarrow> globals" where
  "init critical = \<lparr>prevHeight = 0, warningCount = 0, criticalCount = critical\<rparr>"

text \<open>
  One call of \<^verbatim>\<open>pluginFeature\<close>. What comes from outside the program is an argument:
  \<open>Unmarshal\<close> is \<^verbatim>\<open>json.Unmarshal\<close> into a \<^verbatim>\<open>BlockHeightResponse\<close>, \<open>execute_method\<close> is
  \<^verbatim>\<open>info["execute_method"].GetStringValue()\<close>, and \<open>post\<close> is what the HTTP request gave:
  an error, or the response body. The result is the pair the Go function returns and
  the variables after the call.
\<close>

definition pluginFeature ::
  "(string \<Rightarrow> error + BlockHeightResponse) \<Rightarrow> string \<Rightarrow> error + string \<Rightarrow> globals
     \<Rightarrow> (CallResponse \<times> error option) \<times> globals" where
  "pluginFeature Unmarshal execute_method post g =
     (let ret = \<lparr>FuncName = execute_method,
                 Message = ''Unable to fetch block height'',
                 Severity = SEVERITY_UNKNOWN,
                 State = STATE_NONE\<rparr>
      in case post of
        Inl err \<Rightarrow>
          ((ret\<lparr>Message := ''Failed to get response: '' @ Error err,
                 Severity := SEVERITY_CRITICAL,
                 State := STATE_FAILURE\<rparr>, Some err), g)
      | Inr body \<Rightarrow>
          (case Unmarshal body of
             Inl err \<Rightarrow>
               ((ret\<lparr>Message := ''Failed to parse response: '' @ Error err,
                      Severity := SEVERITY_CRITICAL,
                      State := STATE_FAILURE\<rparr>, Some err), g)
           | Inr blockHeightResp \<Rightarrow>
               (case hexToInt64 (Result blockHeightResp) of
                  Inl err \<Rightarrow>
                    ((ret\<lparr>Message := ''Failed to convert hex to int64: '' @ Error err,
                           Severity := SEVERITY_CRITICAL,
                           State := STATE_FAILURE\<rparr>, Some err), g)
                | Inr latestHeight \<Rightarrow>
                    (let (ret1, g1) =
                       (if sint (prevHeight g) < sint latestHeight then
                          (ret\<lparr>Message := ''Block height increasing. Current height: ''
                                   @ fmtInt (sint latestHeight),
                                Severity := SEVERITY_INFO\<rparr>,
                           g\<lparr>warningCount := 0\<rparr>)
                        else
                          (let g' = g\<lparr>warningCount := warningCount g + 1\<rparr> in
                           if sint (criticalCount g') < sint (warningCount g') then
                             (ret\<lparr>Message := ''Block height stuck more than ''
                                      @ fmtInt (sint (criticalCount g'))
                                      @ '' times. Current height: ''
                                      @ fmtInt (sint latestHeight),
                                   Severity := SEVERITY_CRITICAL\<rparr>, g')
                           else
                             (ret\<lparr>Message := ''Block height stuck ''
                                      @ fmtInt (sint (warningCount g'))
                                      @ '' times. Current height: ''
                                      @ fmtInt (sint latestHeight),
                                   Severity := SEVERITY_WARNING\<rparr>, g')));
                         ret2 = ret1\<lparr>State := STATE_SUCCESS\<rparr>;
                         g2 = g1\<lparr>prevHeight := latestHeight\<rparr>
                     in ((ret2, None), g2)))))"

text \<open>
  The host calls the registered function once per tick. \<open>run\<close> makes the calls of a list
  of ticks in order, each on the variables the one before left, and collects what they
  returned.
\<close>

fun run ::
  "(string \<Rightarrow> error + BlockHeightResponse) \<Rightarrow> (string \<times> (error + string)) list \<Rightarrow> globals
     \<Rightarrow> (CallResponse \<times> error option) list \<times> globals" where
  "run Unmarshal [] g = ([], g)"
| "run Unmarshal ((execute_method, post) # ticks) g =
     (case pluginFeature Unmarshal execute_method post g of
        (r, g') \<Rightarrow> (case run Unmarshal ticks g' of (rs, g'') \<Rightarrow> (r # rs, g'')))"

subsection \<open>Vocabulary of the statements\<close>

text \<open>
  The hex digits \<^verbatim>\<open>[0-9a-fA-F]\<close> and the value of a digit string in base 16, written as
  positional notation (each digit times the power of 16 of its place) and independently
  of the scanner above.
\<close>

definition is_hex_digit :: "char \<Rightarrow> bool" where
  "is_hex_digit c = (c \<in> set ''0123456789abcdefABCDEF'')"

definition hex_digit_value :: "char \<Rightarrow> nat" where
  "hex_digit_value c =
     (case map_of (zip ''0123456789abcdefABCDEF''
                       [0, 1, 2, 3, 4, 5, 6, 7, 8, 9, 10, 11, 12, 13, 14, 15,
                        10, 11, 12, 13, 14, 15]) c of
        Some v \<Rightarrow> v
      | None \<Rightarrow> 0)"

primrec base16_value :: "string \<Rightarrow> nat" where
  "base16_value [] = 0"
| "base16_value (c # cs) = hex_digit_value c * 16 ^ length cs + base16_value cs"

text \<open>What is left of a string after an optional leading lowercase \<^verbatim>\<open>0x\<close>, and after an
  optional leading sign.\<close>

definition strip_0x :: "string \<Rightarrow> string" where
  "strip_0x s = (if take 2 s = ''0x'' then drop 2 s else s)"

definition strip_sign :: "string \<Rightarrow> string" where
  "strip_sign s =
     (case s of
        [] \<Rightarrow> []
      | c # cs \<Rightarrow> if c = CHR ''-'' \<or> c = CHR ''+'' then cs else s)"

text \<open>The height a tick observes: the parsed result of a request that succeeded and
  decoded, when there is one.\<close>

definition observed ::
  "(string \<Rightarrow> error + BlockHeightResponse) \<Rightarrow> error + string \<Rightarrow> (64 word) option" where
  "observed Unmarshal post =
     (case post of
        Inl err \<Rightarrow> None
      | Inr body \<Rightarrow>
          (case Unmarshal body of
             Inl err \<Rightarrow> None
           | Inr resp \<Rightarrow>
               (case hexToInt64 (Result resp) of
                  Inl err \<Rightarrow> None
                | Inr h \<Rightarrow> Some h)))"

text \<open>A decoder for concrete runs: it takes the whole body as the \<^verbatim>\<open>result\<close> field, and
  fails on an empty body.\<close>

definition body_as_result :: "string \<Rightarrow> error + BlockHeightResponse" where
  "body_as_result body =
     (if body = [] then Inl (ErrExternal ''unexpected end of JSON input'')
      else Inr \<lparr>JsonRPC = ''2.0'', Result = body, ID = 1\<rparr>)"

section \<open>The hex parser\<close>

subsection \<open>Digits and the scanner\<close>

lemma hex_digit_digitVal:
  "is_hex_digit c \<Longrightarrow> digitVal c = hex_digit_value c"
  by (auto simp: is_hex_digit_def digitVal_def hex_digit_value_def)

lemma hex_digit_below_16: "is_hex_digit c \<Longrightarrow> digitVal c < 16"
  by (auto simp: is_hex_digit_def digitVal_def)

lemma below_16_hex_digit:
  assumes "digitVal c < 16"
  shows "is_hex_digit c"
proof -
  define n where "n = (of_char c :: nat)"
  from assms have "n \<in> {48..57} \<union> {97..102} \<union> {65..70}"
    unfolding digitVal_def n_def [symmetric] by (auto simp: Let_def split: if_splits)
  then have "n \<in> of_char ` set ''0123456789abcdefABCDEF''"
    by simp arith
  then have "c \<in> set ''0123456789abcdefABCDEF''"
    unfolding n_def by (simp only: inj_image_mem_iff [OF inj_of_char])
  then show ?thesis by (simp only: is_hex_digit_def)
qed

lemma is_hex_digit_iff: "is_hex_digit c \<longleftrightarrow> digitVal c < 16"
  using hex_digit_below_16 below_16_hex_digit by blast

lemma scanDigits_hex:
  "list_all is_hex_digit ds \<Longrightarrow>
     scanDigits 16 z count ds = (z * 16 ^ length ds + base16_value ds, count + length ds, [])"
proof (induction ds arbitrary: z count)
  case Nil
  then show ?case by simp
next
  case (Cons c cs)
  then have c: "is_hex_digit c" and cs: "list_all is_hex_digit cs" by simp_all
  from c have lt: "\<not> 16 \<le> digitVal c" using hex_digit_below_16 [of c] by simp
  show ?case
    using lt by (simp add: Cons.IH [OF cs] hex_digit_digitVal [OF c] algebra_simps)
qed

lemma scanDigits_rest:
  "\<not> list_all is_hex_digit r \<Longrightarrow> snd (snd (scanDigits 16 z count r)) \<noteq> []"
proof (induction r arbitrary: z count)
  case Nil
  then show ?case by simp
next
  case (Cons c cs)
  show ?case
  proof (cases "is_hex_digit c")
    case True
    with Cons.prems have "\<not> list_all is_hex_digit cs" by simp
    from Cons.IH [OF this] True show ?thesis
      by (simp add: is_hex_digit_iff)
  next
    case False
    then show ?thesis by (simp add: is_hex_digit_iff)
  qed
qed

lemma natScan_fails:
  assumes "r = [] \<or> \<not> list_all is_hex_digit r"
  shows "natScan r 16 = None \<or> (\<exists>z rest. natScan r 16 = Some (z, rest) \<and> rest \<noteq> [])"
proof (cases "r = []")
  case True
  then show ?thesis by (simp add: natScan_def)
next
  case False
  with assms have "\<not> list_all is_hex_digit r" by simp
  from scanDigits_rest [OF this, of 0 0] show ?thesis
    by (cases "scanDigits 16 0 0 r") (auto simp: natScan_def)
qed

lemma SetString_fails:
  assumes "strip_sign s = [] \<or> \<not> list_all is_hex_digit (strip_sign s)"
  shows "SetString s 16 = None"
proof (cases s)
  case Nil
  then show ?thesis by (simp add: SetString_def)
next
  case (Cons c cs)
  have "\<exists>neg. scanSign s = Some (neg, strip_sign s)"
    by (auto simp: Cons strip_sign_def)
  then obtain neg where sc: "scanSign s = Some (neg, strip_sign s)" ..
  from natScan_fails [OF assms] show ?thesis
    by (auto simp: SetString_def sc)
qed

lemma SetString_hex:
  assumes "ds \<noteq> []" and "list_all is_hex_digit ds"
  shows "SetString ds 16 = Some (int (base16_value ds))"
proof -
  from assms obtain c cs where ds: "ds = c # cs" and c: "is_hex_digit c"
    by (cases ds) auto
  from c have "c \<noteq> CHR ''-''" and "c \<noteq> CHR ''+''"
    by (auto simp: is_hex_digit_def)
  then have sc: "scanSign ds = Some (False, ds)" by (simp add: ds)
  have "natScan ds 16 = Some (base16_value ds, [])"
    using assms(1) by (simp add: natScan_def scanDigits_hex [OF assms(2)])
  with sc show ?thesis by (simp add: SetString_def)
qed

lemma strip_0x_code:
  "(if length s \<ge> 2 \<and> take 2 s = ''0x'' then drop 2 s else s) = strip_0x s"
  by (auto simp: strip_0x_def)

lemma strip_0x_hex: "list_all is_hex_digit ds \<Longrightarrow> strip_0x ds = ds"
proof -
  assume a: "list_all is_hex_digit ds"
  have "take 2 ds \<noteq> ''0x''"
  proof
    assume t: "take 2 ds = ''0x''"
    then have "CHR ''x'' \<in> set (take 2 ds)" by simp
    then have "CHR ''x'' \<in> set ds" by (rule in_set_takeD)
    with a have "is_hex_digit (CHR ''x'')" by (simp add: list_all_iff)
    then show False by (simp add: is_hex_digit_def)
  qed
  then show ?thesis by (simp add: strip_0x_def)
qed

lemma strip_0x_prefixed: "strip_0x (''0x'' @ ds) = ds"
  by (simp add: strip_0x_def)

lemma hexToInt64_strip:
  "hexToInt64 s =
     (case SetString (strip_0x s) 16 of
        None \<Rightarrow> Inl (ErrParseHex (strip_0x s))
      | Some n \<Rightarrow> if \<not> IsInt64 n then Inl (ErrTooLarge (strip_0x s)) else Inr (Int64 n))"
  unfolding hexToInt64_def strip_0x_code by (simp add: Let_def)

lemma sint_Int64: "IsInt64 n \<Longrightarrow> sint (Int64 n) = n"
  unfolding IsInt64_def Int64_def
  by (simp add: sint_sbintrunc' signed_take_bit_int_eq_self)


subsection \<open>Malformed input\<close>

text \<open>
  C4, as stated, fails: a string may keep a character outside \<^verbatim>\<open>[0-9a-fA-F]\<close> after its
  \<^verbatim>\<open>0x\<close> and still parse, since \<^verbatim>\<open>SetString\<close> takes one leading sign. \<^verbatim>\<open>+ff\<close> has no
  \<^verbatim>\<open>0x\<close> to strip, holds the character \<^verbatim>\<open>+\<close>, and parses to 255.
\<close>

theorem hexToInt64_sign_accepted:
  "strip_0x ''+ff'' = ''+ff''
   \<and> \<not> list_all is_hex_digit (strip_0x ''+ff'')
   \<and> hexToInt64 ''+ff'' = Inr 255"
  by (simp add: strip_0x_def is_hex_digit_def hexToInt64_def SetString_def natScan_def
      digitVal_def IsInt64_def Int64_def)

text \<open>
  C4, amended: for every input string, if what is left after stripping an optional
  leading lowercase \<^verbatim>\<open>0x\<close> and then one optional leading sign (\<^verbatim>\<open>+\<close> or \<^verbatim>\<open>-\<close>) is empty or
  holds a character outside \<^verbatim>\<open>[0-9a-fA-F]\<close>, \<open>hexToInt64\<close> fails with the malformed-hex
  error (the one printed as "failed to parse hex string"), which carries the string as
  it was after the \<^verbatim>\<open>0x\<close> was stripped.
\<close>

theorem hexToInt64_malformed:
  assumes "strip_sign (strip_0x s) = [] \<or> \<not> list_all is_hex_digit (strip_sign (strip_0x s))"
  shows "hexToInt64 s = Inl (ErrParseHex (strip_0x s))"
  by (simp add: hexToInt64_strip SetString_fails [OF assms])

theorem hexToInt64_malformed_witness:
  "(strip_sign (strip_0x ''0x-'') = [] \<or> \<not> list_all is_hex_digit (strip_sign (strip_0x ''0x-'')))
   \<and> (strip_sign (strip_0x ''0x1g'') = [] \<or> \<not> list_all is_hex_digit (strip_sign (strip_0x ''0x1g'')))
   \<and> hexToInt64 ''0x-'' = Inl (ErrParseHex ''-'')
   \<and> hexToInt64 ''0x1g'' = Inl (ErrParseHex ''1g'')"
proof -
  have h1: "strip_sign (strip_0x ''0x-'') = []
            \<or> \<not> list_all is_hex_digit (strip_sign (strip_0x ''0x-''))"
    by (simp add: strip_0x_def strip_sign_def)
  have h2: "strip_sign (strip_0x ''0x1g'') = []
            \<or> \<not> list_all is_hex_digit (strip_sign (strip_0x ''0x1g''))"
    by (simp add: strip_0x_def strip_sign_def is_hex_digit_def)
  have "hexToInt64 ''0x-'' = Inl (ErrParseHex ''-'')"
    using hexToInt64_malformed [OF h1] by (simp add: strip_0x_def)
  moreover have "hexToInt64 ''0x1g'' = Inl (ErrParseHex ''1g'')"
    using hexToInt64_malformed [OF h2] by (simp add: strip_0x_def)
  ultimately show ?thesis using h1 h2 by blast
qed

subsection \<open>Well-formed input\<close>

text \<open>
  C5: for every string that is an optional leading lowercase \<^verbatim>\<open>0x\<close> followed by one or
  more hex digits \<^verbatim>\<open>[0-9a-fA-F]\<close> whose base-16 value is at most the largest signed 64-bit
  integer, \<open>hexToInt64\<close> succeeds, and the \<^verbatim>\<open>int64\<close> it returns is exactly that value.
\<close>

theorem hexToInt64_value:
  assumes "ds \<noteq> []" and "list_all is_hex_digit ds" and "base16_value ds \<le> 2 ^ 63 - 1"
  shows "hexToInt64 ds = Inr (word_of_nat (base16_value ds))
         \<and> hexToInt64 (''0x'' @ ds) = Inr (word_of_nat (base16_value ds))
         \<and> sint (word_of_nat (base16_value ds) :: 64 word) = int (base16_value ds)"
proof -
  have r: "IsInt64 (int (base16_value ds))"
    using assms(3) by (simp add: IsInt64_def)
  have "hexToInt64 ds = Inr (Int64 (int (base16_value ds)))"
    by (simp add: hexToInt64_strip strip_0x_hex [OF assms(2)] SetString_hex [OF assms(1,2)] r)
  moreover have "hexToInt64 (''0x'' @ ds) = Inr (Int64 (int (base16_value ds)))"
    by (simp only: hexToInt64_strip strip_0x_prefixed SetString_hex [OF assms(1,2)])
      (simp add: r)
  ultimately show ?thesis using sint_Int64 [OF r] by (simp add: Int64_def)
qed

theorem hexToInt64_value_witness:
  "''1aF'' \<noteq> [] \<and> list_all is_hex_digit ''1aF'' \<and> base16_value ''1aF'' \<le> 2 ^ 63 - 1
   \<and> hexToInt64 ''1aF'' = Inr 431
   \<and> hexToInt64 ''0x1aF'' = Inr 431
   \<and> sint (431 :: 64 word) = 431"
proof -
  have v: "base16_value ''1aF'' = 431"
    by (simp add: hex_digit_value_def)
  have h1: "''1aF'' \<noteq> []" by simp
  have h2: "list_all is_hex_digit ''1aF''" by (simp add: is_hex_digit_def)
  have h3: "base16_value ''1aF'' \<le> 2 ^ 63 - 1" unfolding v by simp
  from hexToInt64_value [OF h1 h2 h3] have
    "hexToInt64 ''1aF'' = Inr 431 \<and> hexToInt64 ''0x1aF'' = Inr 431
     \<and> sint (431 :: 64 word) = 431"
    unfolding v by simp
  with h1 h2 h3 show ?thesis by blast
qed

subsection \<open>The signed 64-bit range\<close>

text \<open>
  C6: \<open>hexToInt64\<close> of \<^verbatim>\<open>0x7fffffffffffffff\<close> succeeds with the largest signed 64-bit value,
  \<open>2^63 - 1\<close>, and of \<^verbatim>\<open>0x8000000000000000\<close> fails with the overflow error (the one
  printed as "hex value too large for int64"). More generally every well-formed hex
  string (an optional \<^verbatim>\<open>0x\<close>, then one or more hex digits) whose value exceeds \<open>2^63 - 1\<close>
  fails with that error; and no result is ever truncated: whatever string \<open>hexToInt64\<close>
  succeeds on, the \<^verbatim>\<open>int64\<close> it returns reads as exactly the integer \<^verbatim>\<open>SetString\<close> parsed.
\<close>

theorem hexToInt64_overflow:
  "hexToInt64 ''0x7fffffffffffffff'' = Inr 9223372036854775807
   \<and> sint (9223372036854775807 :: 64 word) = 2 ^ 63 - 1
   \<and> hexToInt64 ''0x8000000000000000'' = Inl (ErrTooLarge ''8000000000000000'')
   \<and> (\<forall>ds. ds \<noteq> [] \<and> list_all is_hex_digit ds \<and> 2 ^ 63 - 1 < base16_value ds \<longrightarrow>
         hexToInt64 ds = Inl (ErrTooLarge ds)
         \<and> hexToInt64 (''0x'' @ ds) = Inl (ErrTooLarge ds))
   \<and> (\<forall>s w. hexToInt64 s = Inr w \<longrightarrow> SetString (strip_0x s) 16 = Some (sint w))"
proof (intro conjI allI impI)
  show "hexToInt64 ''0x7fffffffffffffff'' = Inr 9223372036854775807"
    by (simp add: hexToInt64_def SetString_def natScan_def digitVal_def IsInt64_def Int64_def)
  show "sint (9223372036854775807 :: 64 word) = 2 ^ 63 - 1"
    by simp
  show "hexToInt64 ''0x8000000000000000'' = Inl (ErrTooLarge ''8000000000000000'')"
    by (simp add: hexToInt64_def SetString_def natScan_def digitVal_def IsInt64_def Int64_def)
next
  fix ds
  assume a: "ds \<noteq> [] \<and> list_all is_hex_digit ds \<and> 2 ^ 63 - 1 < base16_value ds"
  then have ne: "ds \<noteq> []" and hex: "list_all is_hex_digit ds" by simp_all
  from a have r: "\<not> IsInt64 (int (base16_value ds))"
    by (simp add: IsInt64_def)
  show "hexToInt64 ds = Inl (ErrTooLarge ds)"
    by (simp add: hexToInt64_strip strip_0x_hex [OF hex] SetString_hex [OF ne hex] r)
  show "hexToInt64 (''0x'' @ ds) = Inl (ErrTooLarge ds)"
    by (simp only: hexToInt64_strip strip_0x_prefixed SetString_hex [OF ne hex])
      (simp add: r)
next
  fix s w
  assume "hexToInt64 s = Inr w"
  then show "SetString (strip_0x s) 16 = Some (sint w)"
    by (auto simp: hexToInt64_strip sint_Int64 split: option.splits if_splits)
qed

theorem hexToInt64_overflow_witness:
  "''ffffffffffffffff'' \<noteq> [] \<and> list_all is_hex_digit ''ffffffffffffffff''
   \<and> 2 ^ 63 - 1 < base16_value ''ffffffffffffffff''
   \<and> hexToInt64 ''ffffffffffffffff'' = Inl (ErrTooLarge ''ffffffffffffffff'')
   \<and> hexToInt64 ''0xffffffffffffffff'' = Inl (ErrTooLarge ''ffffffffffffffff'')
   \<and> hexToInt64 ''-0x10'' = Inl (ErrParseHex ''-0x10'')
   \<and> hexToInt64 ''0x-10'' = Inr (- 16)
   \<and> SetString (strip_0x ''0x-10'') 16 = Some (- 16)"
proof -
  have h: "''ffffffffffffffff'' \<noteq> [] \<and> list_all is_hex_digit ''ffffffffffffffff''
           \<and> 2 ^ 63 - 1 < base16_value ''ffffffffffffffff''"
    by (simp add: is_hex_digit_def hex_digit_value_def)
  have p: "hexToInt64 ''0x-10'' = Inr (- 16)"
    by (simp add: hexToInt64_def SetString_def natScan_def digitVal_def IsInt64_def Int64_def)
  have q: "hexToInt64 ''-0x10'' = Inl (ErrParseHex ''-0x10'')"
    by (simp add: hexToInt64_def SetString_def natScan_def digitVal_def IsInt64_def Int64_def)
  from hexToInt64_overflow have
    g: "\<forall>ds. ds \<noteq> [] \<and> list_all is_hex_digit ds \<and> 2 ^ 63 - 1 < base16_value ds \<longrightarrow>
          hexToInt64 ds = Inl (ErrTooLarge ds)
          \<and> hexToInt64 (''0x'' @ ds) = Inl (ErrTooLarge ds)"
    and t: "\<forall>s w. hexToInt64 s = Inr w \<longrightarrow> SetString (strip_0x s) 16 = Some (sint w)"
    by blast+
  from g h have "hexToInt64 ''ffffffffffffffff'' = Inl (ErrTooLarge ''ffffffffffffffff'')
    \<and> hexToInt64 (''0x'' @ ''ffffffffffffffff'') = Inl (ErrTooLarge ''ffffffffffffffff'')"
    by blast
  moreover from t p have "SetString (strip_0x ''0x-10'') 16 = Some (sint (- 16 :: 64 word))"
    by blast
  ultimately show ?thesis using h p q by simp
qed

text \<open>
  With a sign the most negative \<^verbatim>\<open>int64\<close> parses too: \<^verbatim>\<open>IsInt64\<close> asks for the value to lie
  between \<open>- 2^63\<close> and \<open>2^63 - 1\<close>, not for a magnitude below \<open>2^63\<close>.
\<close>

lemma hexToInt64_min_int64:
  "hexToInt64 ''-8000000000000000'' = Inr (- 9223372036854775808)
   \<and> sint (- 9223372036854775808 :: 64 word) = - (2 ^ 63)"
  by (simp add: hexToInt64_def SetString_def natScan_def digitVal_def IsInt64_def Int64_def)

subsection \<open>Concrete inputs\<close>

text \<open>
  C8: \<open>hexToInt64\<close> fails on each of the inputs \<^verbatim>\<open>0x\<close>, the empty string and \<^verbatim>\<open>0xzz\<close> with
  the malformed-hex error.
\<close>

theorem hexToInt64_malformed_examples:
  "hexToInt64 ''0x'' = Inl (ErrParseHex [])
   \<and> hexToInt64 [] = Inl (ErrParseHex [])
   \<and> hexToInt64 ''0xzz'' = Inl (ErrParseHex ''zz'')"
  by (simp add: hexToInt64_def SetString_def natScan_def digitVal_def)

text \<open>
  C9: there are input strings holding a character outside \<^verbatim>\<open>[0-9a-fA-F]\<close>, namely a
  leading sign as in \<^verbatim>\<open>-ff\<close> and \<^verbatim>\<open>0x-1\<close>, on which \<open>hexToInt64\<close> succeeds and returns a
  negative \<^verbatim>\<open>int64\<close>: \<^verbatim>\<open>SetString\<close> in base 16 takes a sign, so a parsed height need not be
  non-negative.
\<close>

theorem hexToInt64_negative:
  "\<not> is_hex_digit (CHR ''-'')
   \<and> hexToInt64 ''-ff'' = Inr (- 255) \<and> sint (- 255 :: 64 word) = - 255
   \<and> hexToInt64 ''0x-1'' = Inr (- 1) \<and> sint (- 1 :: 64 word) = - 1"
  by (simp add: is_hex_digit_def hexToInt64_def SetString_def natScan_def digitVal_def
      IsInt64_def Int64_def)

section \<open>The check\<close>

subsection \<open>The three ways a call ends\<close>

lemma observed_cases:
  "observed Unmarshal post = Some h \<longleftrightarrow>
     (\<exists>body resp. post = Inr body \<and> Unmarshal body = Inr resp
        \<and> hexToInt64 (Result resp) = Inr h)"
  by (auto simp: observed_def split: sum.splits)

lemma pluginFeature_increasing:
  assumes "observed Unmarshal post = Some h" and "sint (prevHeight g) < sint h"
  shows "pluginFeature Unmarshal execute_method post g =
           ((\<lparr>FuncName = execute_method,
              Message = ''Block height increasing. Current height: '' @ fmtInt (sint h),
              Severity = SEVERITY_INFO,
              State = STATE_SUCCESS\<rparr>, None),
            g\<lparr>warningCount := 0, prevHeight := h\<rparr>)"
proof -
  from assms(1) obtain body resp where
    "post = Inr body" "Unmarshal body = Inr resp" "hexToInt64 (Result resp) = Inr h"
    unfolding observed_cases by blast
  with assms(2) show ?thesis
    by (simp add: pluginFeature_def)
qed

lemma pluginFeature_stuck:
  assumes "observed Unmarshal post = Some h" and "sint h \<le> sint (prevHeight g)"
  shows "pluginFeature Unmarshal execute_method post g =
           ((\<lparr>FuncName = execute_method,
              Message =
                (if sint (criticalCount g) < sint (warningCount g + 1)
                 then ''Block height stuck more than '' @ fmtInt (sint (criticalCount g))
                      @ '' times. Current height: '' @ fmtInt (sint h)
                 else ''Block height stuck '' @ fmtInt (sint (warningCount g + 1))
                      @ '' times. Current height: '' @ fmtInt (sint h)),
              Severity =
                (if sint (criticalCount g) < sint (warningCount g + 1)
                 then SEVERITY_CRITICAL else SEVERITY_WARNING),
              State = STATE_SUCCESS\<rparr>, None),
            g\<lparr>warningCount := warningCount g + 1, prevHeight := h\<rparr>)"
proof -
  from assms(1) obtain body resp where
    "post = Inr body" "Unmarshal body = Inr resp" "hexToInt64 (Result resp) = Inr h"
    unfolding observed_cases by blast
  with assms(2) show ?thesis
    by (simp add: pluginFeature_def Let_def)
qed

lemma pluginFeature_failed:
  assumes "post = Inl e
           \<or> (\<exists>body. post = Inr body \<and> Unmarshal body = Inl e)
           \<or> (\<exists>body resp. post = Inr body \<and> Unmarshal body = Inr resp
                 \<and> hexToInt64 (Result resp) = Inl e)"
  shows "\<exists>prefix. pluginFeature Unmarshal execute_method post g =
           ((\<lparr>FuncName = execute_method,
              Message = prefix @ Error e,
              Severity = SEVERITY_CRITICAL,
              State = STATE_FAILURE\<rparr>, Some e), g)"
  using assms by (auto simp: pluginFeature_def)

lemma sint_succ:
  fixes w :: "64 word"
  assumes "sint w < 2 ^ 63 - 1"
  shows "sint (w + 1) = sint w + 1"
proof -
  have lo: "- (2 ^ 63) \<le> sint w" using sint_ge [of w] by simp
  have "sint (w + 1) = signed_take_bit 63 (sint w + 1)"
    by (simp add: sint_word_ariths)
  also have "\<dots> = sint w + 1"
    using lo assms by (intro signed_take_bit_int_eq_self) simp_all
  finally show ?thesis .
qed

lemma stuck_step:
  assumes "observed Unmarshal post = Some h" and "sint h \<le> sint (prevHeight g)"
    and "warningCount g = n" and "criticalCount g = 3"
  shows "\<exists>r g'. pluginFeature Unmarshal execute_method post g = ((r, None), g')
           \<and> Severity r = (if 3 < sint (n + 1) then SEVERITY_CRITICAL else SEVERITY_WARNING)
           \<and> warningCount g' = n + 1 \<and> criticalCount g' = 3 \<and> prevHeight g' = h"
  unfolding pluginFeature_stuck [OF assms(1,2)] using assms(3,4) by simp

subsection \<open>A height that did not increase\<close>

text \<open>
  C1: in every call where the parsed observed height is less than or equal to
  \<^verbatim>\<open>prevHeight\<close> (the first call too, where \<^verbatim>\<open>prevHeight\<close> is 0), \<^verbatim>\<open>warningCount\<close> goes up
  by exactly 1; the result is CRITICAL if the new \<^verbatim>\<open>warningCount\<close> is strictly greater
  than \<^verbatim>\<open>criticalCount\<close> and WARNING otherwise; and \<^verbatim>\<open>prevHeight\<close> becomes the observed
  height. The increment is Go's \<^verbatim>\<open>++\<close> on an \<^verbatim>\<open>int\<close>: below the largest \<^verbatim>\<open>int\<close> the counter
  read as an integer grows by 1, and at the largest it wraps.
\<close>

theorem stuck_tick:
  assumes "observed Unmarshal post = Some h"
    and "sint h \<le> sint (prevHeight g)"
    and "pluginFeature Unmarshal execute_method post g = ((ret, err), g')"
  shows "warningCount g' = warningCount g + 1
         \<and> Severity ret =
             (if sint (criticalCount g) < sint (warningCount g')
              then SEVERITY_CRITICAL else SEVERITY_WARNING)
         \<and> prevHeight g' = h
         \<and> criticalCount g' = criticalCount g
         \<and> State ret = STATE_SUCCESS \<and> err = None
         \<and> (sint (warningCount g) < 2 ^ 63 - 1 \<longrightarrow>
                sint (warningCount g') = sint (warningCount g) + 1)"
  using assms(3) unfolding pluginFeature_stuck [OF assms(1,2)]
  by (auto simp: sint_succ)

theorem stuck_tick_witness:
  "observed body_as_result (Inr ''0x0'') = Some 0
   \<and> sint (0 :: 64 word) \<le> sint (prevHeight (init defaultCriticalCount))
   \<and> pluginFeature body_as_result ''m'' (Inr ''0x0'') (init defaultCriticalCount)
      = ((\<lparr>FuncName = ''m'',
           Message = ''Block height stuck 1 times. Current height: 0'',
           Severity = SEVERITY_WARNING, State = STATE_SUCCESS\<rparr>, None),
         \<lparr>prevHeight = 0, warningCount = 1, criticalCount = 3\<rparr>)
   \<and> warningCount \<lparr>prevHeight = 0, warningCount = 1, criticalCount = 3\<rparr>
       = warningCount (init defaultCriticalCount) + 1
   \<and> sint (warningCount \<lparr>prevHeight = 0, warningCount = 1, criticalCount = 3\<rparr>)
       = sint (warningCount (init defaultCriticalCount)) + 1"
proof -
  have h1: "observed body_as_result (Inr ''0x0'') = Some 0"
    by (simp add: observed_def body_as_result_def hexToInt64_def SetString_def natScan_def
        digitVal_def IsInt64_def Int64_def)
  have h2: "sint (0 :: 64 word) \<le> sint (prevHeight (init defaultCriticalCount))"
    by (simp add: init_def)
  have h3: "sint (warningCount (init defaultCriticalCount)) < 2 ^ 63 - 1"
    by (simp add: init_def)
  have p: "pluginFeature body_as_result ''m'' (Inr ''0x0'') (init defaultCriticalCount)
      = ((\<lparr>FuncName = ''m'',
           Message = ''Block height stuck 1 times. Current height: 0'',
           Severity = SEVERITY_WARNING, State = STATE_SUCCESS\<rparr>, None),
         \<lparr>prevHeight = 0, warningCount = 1, criticalCount = 3\<rparr>)"
    by (simp add: pluginFeature_def init_def defaultCriticalCount_def body_as_result_def hexToInt64_def SetString_def
        natScan_def digitVal_def IsInt64_def Int64_def fmtInt_def digitChar_def char_of_def bit_0)
  from stuck_tick [OF h1 h2 p] h1 h2 h3 p show ?thesis by blast
qed

subsection \<open>A height that increased\<close>

text \<open>
  C2: in every call where the parsed observed height is strictly greater than
  \<^verbatim>\<open>prevHeight\<close>, the result is INFO with state SUCCESS and no error, \<^verbatim>\<open>warningCount\<close> is
  reset to 0, and \<^verbatim>\<open>prevHeight\<close> becomes the observed height.
\<close>

theorem increasing_tick:
  assumes "observed Unmarshal post = Some h"
    and "sint (prevHeight g) < sint h"
    and "pluginFeature Unmarshal execute_method post g = ((ret, err), g')"
  shows "Severity ret = SEVERITY_INFO
         \<and> State ret = STATE_SUCCESS \<and> err = None
         \<and> warningCount g' = 0
         \<and> prevHeight g' = h
         \<and> criticalCount g' = criticalCount g"
  using assms(3) unfolding pluginFeature_increasing [OF assms(1,2)] by auto

theorem increasing_tick_witness:
  "observed body_as_result (Inr ''0x65'') = Some 101
   \<and> sint (prevHeight \<lparr>prevHeight = 100, warningCount = 2, criticalCount = 3\<rparr>)
       < sint (101 :: 64 word)
   \<and> pluginFeature body_as_result ''m'' (Inr ''0x65'')
        \<lparr>prevHeight = 100, warningCount = 2, criticalCount = 3\<rparr>
      = ((\<lparr>FuncName = ''m'',
           Message = ''Block height increasing. Current height: 101'',
           Severity = SEVERITY_INFO, State = STATE_SUCCESS\<rparr>, None),
         \<lparr>prevHeight = 101, warningCount = 0, criticalCount = 3\<rparr>)"
proof -
  let ?g = "\<lparr>prevHeight = 100, warningCount = 2, criticalCount = 3\<rparr> :: globals"
  have h1: "observed body_as_result (Inr ''0x65'') = Some 101"
    by (simp add: observed_def body_as_result_def hexToInt64_def SetString_def natScan_def
        digitVal_def IsInt64_def Int64_def)
  have h2: "sint (prevHeight ?g) < sint (101 :: 64 word)"
    by simp
  have p: "pluginFeature body_as_result ''m'' (Inr ''0x65'') ?g
      = ((\<lparr>FuncName = ''m'',
           Message = ''Block height increasing. Current height: 101'',
           Severity = SEVERITY_INFO, State = STATE_SUCCESS\<rparr>, None),
         \<lparr>prevHeight = 101, warningCount = 0, criticalCount = 3\<rparr>)"
    by (simp add: pluginFeature_def body_as_result_def hexToInt64_def SetString_def natScan_def
        digitVal_def IsInt64_def Int64_def fmtInt_def digitChar_def char_of_def bit_0)
  from increasing_tick [OF h1 h2 p] h1 h2 p show ?thesis by blast
qed

subsection \<open>A call that fails\<close>

text \<open>
  C3: whenever the request fails, the body cannot be decoded, or the hex parser fails,
  the call returns severity CRITICAL with state FAILURE and a message that ends with
  the text of the underlying error, and returns that error; the variables are left as
  they were, so any call made next gives what it would have given had the failed call
  not been made, and a run that starts with the failed tick ends in the same variables as
  the run without it.
\<close>

theorem failed_tick:
  assumes "post = Inl e
           \<or> (\<exists>body. post = Inr body \<and> Unmarshal body = Inl e)
           \<or> (\<exists>body resp. post = Inr body \<and> Unmarshal body = Inr resp
                 \<and> hexToInt64 (Result resp) = Inl e)"
  shows "(\<exists>prefix. pluginFeature Unmarshal execute_method post g =
            ((\<lparr>FuncName = execute_method,
               Message = prefix @ Error e,
               Severity = SEVERITY_CRITICAL,
               State = STATE_FAILURE\<rparr>, Some e), g))
         \<and> pluginFeature Unmarshal execute_method' post'
              (snd (pluginFeature Unmarshal execute_method post g))
            = pluginFeature Unmarshal execute_method' post' g
         \<and> run Unmarshal ((execute_method, post) # ticks) g
            = (fst (pluginFeature Unmarshal execute_method post g) # fst (run Unmarshal ticks g),
               snd (run Unmarshal ticks g))"
proof -
  from pluginFeature_failed [OF assms, of execute_method g]
  obtain r where r: "pluginFeature Unmarshal execute_method post g = (r, g)"
    and "\<exists>prefix. r = (\<lparr>FuncName = execute_method,
                          Message = prefix @ Error e,
                          Severity = SEVERITY_CRITICAL,
                          State = STATE_FAILURE\<rparr>, Some e)"
    by blast
  then show ?thesis
    by (simp add: split_beta)
qed

theorem failed_tick_witness:
  "pluginFeature body_as_result ''m'' (Inl (ErrExternal ''connection refused''))
      \<lparr>prevHeight = 100, warningCount = 2, criticalCount = 3\<rparr>
    = ((\<lparr>FuncName = ''m'',
         Message = ''Failed to get response: connection refused'',
         Severity = SEVERITY_CRITICAL, State = STATE_FAILURE\<rparr>,
        Some (ErrExternal ''connection refused'')),
       \<lparr>prevHeight = 100, warningCount = 2, criticalCount = 3\<rparr>)
   \<and> pluginFeature body_as_result ''m'' (Inr [])
      \<lparr>prevHeight = 100, warningCount = 2, criticalCount = 3\<rparr>
    = ((\<lparr>FuncName = ''m'',
         Message = ''Failed to parse response: unexpected end of JSON input'',
         Severity = SEVERITY_CRITICAL, State = STATE_FAILURE\<rparr>,
        Some (ErrExternal ''unexpected end of JSON input'')),
       \<lparr>prevHeight = 100, warningCount = 2, criticalCount = 3\<rparr>)
   \<and> pluginFeature body_as_result ''m'' (Inr ''0xzz'')
      \<lparr>prevHeight = 100, warningCount = 2, criticalCount = 3\<rparr>
    = ((\<lparr>FuncName = ''m'',
         Message = ''Failed to convert hex to int64: failed to parse hex string: zz'',
         Severity = SEVERITY_CRITICAL, State = STATE_FAILURE\<rparr>,
        Some (ErrParseHex ''zz'')),
       \<lparr>prevHeight = 100, warningCount = 2, criticalCount = 3\<rparr>)
   \<and> snd (run body_as_result
          [(''m'', Inl (ErrExternal ''connection refused'')), (''m'', Inr ''0x64'')]
        \<lparr>prevHeight = 100, warningCount = 2, criticalCount = 3\<rparr>)
     = snd (run body_as_result [(''m'', Inr ''0x64'')]
        \<lparr>prevHeight = 100, warningCount = 2, criticalCount = 3\<rparr>)
   \<and> snd (run body_as_result [(''m'', Inr []), (''m'', Inr ''0x64'')]
        \<lparr>prevHeight = 100, warningCount = 2, criticalCount = 3\<rparr>)
     = snd (run body_as_result [(''m'', Inr ''0x64'')]
        \<lparr>prevHeight = 100, warningCount = 2, criticalCount = 3\<rparr>)
   \<and> snd (run body_as_result [(''m'', Inr ''0xzz''), (''m'', Inr ''0x64'')]
        \<lparr>prevHeight = 100, warningCount = 2, criticalCount = 3\<rparr>)
     = snd (run body_as_result [(''m'', Inr ''0x64'')]
        \<lparr>prevHeight = 100, warningCount = 2, criticalCount = 3\<rparr>)"
proof -
  let ?g = "\<lparr>prevHeight = 100, warningCount = 2, criticalCount = 3\<rparr> :: globals"
  let ?U = body_as_result
  have c1: "Inl (ErrExternal ''connection refused'') = Inl (ErrExternal ''connection refused'')
        \<or> (\<exists>body. Inl (ErrExternal ''connection refused'') = Inr body
              \<and> ?U body = Inl (ErrExternal ''connection refused''))
        \<or> (\<exists>body resp. Inl (ErrExternal ''connection refused'') = Inr body
              \<and> ?U body = Inr resp
              \<and> hexToInt64 (Result resp) = Inl (ErrExternal ''connection refused''))"
    by simp
  have c2: "Inr [] = Inl (ErrExternal ''unexpected end of JSON input'')
        \<or> (\<exists>body. Inr [] = Inr body
              \<and> ?U body = Inl (ErrExternal ''unexpected end of JSON input''))
        \<or> (\<exists>body resp. Inr [] = Inr body
              \<and> ?U body = Inr resp
              \<and> hexToInt64 (Result resp) = Inl (ErrExternal ''unexpected end of JSON input''))"
    by (simp add: body_as_result_def)
  have c3: "Inr ''0xzz'' = Inl (ErrParseHex ''zz'')
        \<or> (\<exists>body. Inr ''0xzz'' = Inr body \<and> ?U body = Inl (ErrParseHex ''zz''))
        \<or> (\<exists>body resp. Inr ''0xzz'' = Inr body
              \<and> ?U body = Inr resp
              \<and> hexToInt64 (Result resp) = Inl (ErrParseHex ''zz''))"
    by (simp add: body_as_result_def hexToInt64_def SetString_def natScan_def digitVal_def)
  have e1: "pluginFeature ?U ''m'' (Inl (ErrExternal ''connection refused'')) ?g
    = ((\<lparr>FuncName = ''m'',
         Message = ''Failed to get response: connection refused'',
         Severity = SEVERITY_CRITICAL, State = STATE_FAILURE\<rparr>,
        Some (ErrExternal ''connection refused'')), ?g)"
    by (simp add: pluginFeature_def)
  have e2: "pluginFeature ?U ''m'' (Inr []) ?g
    = ((\<lparr>FuncName = ''m'',
         Message = ''Failed to parse response: unexpected end of JSON input'',
         Severity = SEVERITY_CRITICAL, State = STATE_FAILURE\<rparr>,
        Some (ErrExternal ''unexpected end of JSON input'')), ?g)"
    by (simp add: pluginFeature_def body_as_result_def)
  have e3: "pluginFeature ?U ''m'' (Inr ''0xzz'') ?g
    = ((\<lparr>FuncName = ''m'',
         Message = ''Failed to convert hex to int64: failed to parse hex string: zz'',
         Severity = SEVERITY_CRITICAL, State = STATE_FAILURE\<rparr>,
        Some (ErrParseHex ''zz'')), ?g)"
    by (simp add: pluginFeature_def body_as_result_def hexToInt64_def SetString_def natScan_def
        digitVal_def)
  from failed_tick [OF c1, of "''m''" ?g "''m''" "Inr ''0x64''" "[(''m'', Inr ''0x64'')]"]
  have r1: "snd (run ?U [(''m'', Inl (ErrExternal ''connection refused'')), (''m'', Inr ''0x64'')] ?g)
        = snd (run ?U [(''m'', Inr ''0x64'')] ?g)"
    by (simp only: snd_conv)
  from failed_tick [OF c2, of "''m''" ?g "''m''" "Inr ''0x64''" "[(''m'', Inr ''0x64'')]"]
  have r2: "snd (run ?U [(''m'', Inr []), (''m'', Inr ''0x64'')] ?g)
        = snd (run ?U [(''m'', Inr ''0x64'')] ?g)"
    by (simp only: snd_conv)
  from failed_tick [OF c3, of "''m''" ?g "''m''" "Inr ''0x64''" "[(''m'', Inr ''0x64'')]"]
  have r3: "snd (run ?U [(''m'', Inr ''0xzz''), (''m'', Inr ''0x64'')] ?g)
        = snd (run ?U [(''m'', Inr ''0x64'')] ?g)"
    by (simp only: snd_conv)
  from e1 e2 e3 r1 r2 r3 show ?thesis by blast
qed

subsection \<open>Four stuck ticks in a row\<close>

text \<open>
  C7: from \<^verbatim>\<open>warningCount = 0\<close> with \<^verbatim>\<open>criticalCount = 3\<close>, four calls in a row that each
  observe a height not above the \<^verbatim>\<open>prevHeight\<close> of the moment bring \<^verbatim>\<open>warningCount\<close> to 4;
  the first three return WARNING and the fourth CRITICAL.
\<close>

theorem four_stuck_ticks:
  assumes "warningCount g = 0" and "criticalCount g = 3"
    and "observed Unmarshal p1 = Some h1" and "sint h1 \<le> sint (prevHeight g)"
    and "observed Unmarshal p2 = Some h2" and "sint h2 \<le> sint h1"
    and "observed Unmarshal p3 = Some h3" and "sint h3 \<le> sint h2"
    and "observed Unmarshal p4 = Some h4" and "sint h4 \<le> sint h3"
    and "run Unmarshal [(m1, p1), (m2, p2), (m3, p3), (m4, p4)] g = (rs, g')"
  shows "map (\<lambda>r. Severity (fst r)) rs
           = [SEVERITY_WARNING, SEVERITY_WARNING, SEVERITY_WARNING, SEVERITY_CRITICAL]
         \<and> warningCount g' = 4"
proof -
  from stuck_step [OF assms(3,4,1,2), of m1] obtain r1 g1 where
    t1: "pluginFeature Unmarshal m1 p1 g = ((r1, None), g1)"
    and v1: "Severity r1 = SEVERITY_WARNING"
    and w1: "warningCount g1 = 1" and c1: "criticalCount g1 = 3" and q1: "prevHeight g1 = h1"
    by auto
  have s2: "sint h2 \<le> sint (prevHeight g1)" using assms(6) by (simp add: q1)
  from stuck_step [OF assms(5) s2 w1 c1, of m2] obtain r2 g2 where
    t2: "pluginFeature Unmarshal m2 p2 g1 = ((r2, None), g2)"
    and v2: "Severity r2 = SEVERITY_WARNING"
    and w2: "warningCount g2 = 2" and c2: "criticalCount g2 = 3" and q2: "prevHeight g2 = h2"
    by auto
  have s3: "sint h3 \<le> sint (prevHeight g2)" using assms(8) by (simp add: q2)
  from stuck_step [OF assms(7) s3 w2 c2, of m3] obtain r3 g3 where
    t3: "pluginFeature Unmarshal m3 p3 g2 = ((r3, None), g3)"
    and v3: "Severity r3 = SEVERITY_WARNING"
    and w3: "warningCount g3 = 3" and c3: "criticalCount g3 = 3" and q3: "prevHeight g3 = h3"
    by auto
  have s4: "sint h4 \<le> sint (prevHeight g3)" using assms(10) by (simp add: q3)
  from stuck_step [OF assms(9) s4 w3 c3, of m4] obtain r4 g4 where
    t4: "pluginFeature Unmarshal m4 p4 g3 = ((r4, None), g4)"
    and v4: "Severity r4 = SEVERITY_CRITICAL"
    and w4: "warningCount g4 = 4"
    by auto
  have "run Unmarshal [(m1, p1), (m2, p2), (m3, p3), (m4, p4)] g
          = ([(r1, None), (r2, None), (r3, None), (r4, None)], g4)"
    by (simp add: t1 t2 t3 t4)
  with assms(11) have "rs = [(r1, None), (r2, None), (r3, None), (r4, None)]" and "g' = g4"
    by simp_all
  then show ?thesis by (simp add: v1 v2 v3 v4 w4)
qed

theorem four_stuck_ticks_witness:
  "run body_as_result
     [(''m'', Inr ''0x64''), (''m'', Inr ''0x64''), (''m'', Inr ''0x63''), (''m'', Inr ''0x63'')]
     \<lparr>prevHeight = 100, warningCount = 0, criticalCount = 3\<rparr>
   = ([(\<lparr>FuncName = ''m'', Message = ''Block height stuck 1 times. Current height: 100'',
         Severity = SEVERITY_WARNING, State = STATE_SUCCESS\<rparr>, None),
       (\<lparr>FuncName = ''m'', Message = ''Block height stuck 2 times. Current height: 100'',
         Severity = SEVERITY_WARNING, State = STATE_SUCCESS\<rparr>, None),
       (\<lparr>FuncName = ''m'', Message = ''Block height stuck 3 times. Current height: 99'',
         Severity = SEVERITY_WARNING, State = STATE_SUCCESS\<rparr>, None),
       (\<lparr>FuncName = ''m'', Message = ''Block height stuck more than 3 times. Current height: 99'',
         Severity = SEVERITY_CRITICAL, State = STATE_SUCCESS\<rparr>, None)],
      \<lparr>prevHeight = 99, warningCount = 4, criticalCount = 3\<rparr>)
   \<and> warningCount \<lparr>prevHeight = 99, warningCount = 4, criticalCount = 3\<rparr> = 4"
proof -
  let ?g = "\<lparr>prevHeight = 100, warningCount = 0, criticalCount = 3\<rparr> :: globals"
  have o1: "observed body_as_result (Inr ''0x64'') = Some 100"
    by (simp add: observed_def body_as_result_def hexToInt64_def SetString_def natScan_def
        digitVal_def IsInt64_def Int64_def)
  have o2: "observed body_as_result (Inr ''0x63'') = Some 99"
    by (simp add: observed_def body_as_result_def hexToInt64_def SetString_def natScan_def
        digitVal_def IsInt64_def Int64_def)
  have a: "warningCount ?g = 0" "criticalCount ?g = 3" by simp_all
  have s: "sint (100 :: 64 word) \<le> sint (prevHeight ?g)" "sint (100 :: 64 word) \<le> sint (100 :: 64 word)"
    "sint (99 :: 64 word) \<le> sint (100 :: 64 word)" "sint (99 :: 64 word) \<le> sint (99 :: 64 word)"
    by simp_all
  have r: "run body_as_result
     [(''m'', Inr ''0x64''), (''m'', Inr ''0x64''), (''m'', Inr ''0x63''), (''m'', Inr ''0x63'')] ?g
   = ([(\<lparr>FuncName = ''m'', Message = ''Block height stuck 1 times. Current height: 100'',
         Severity = SEVERITY_WARNING, State = STATE_SUCCESS\<rparr>, None),
       (\<lparr>FuncName = ''m'', Message = ''Block height stuck 2 times. Current height: 100'',
         Severity = SEVERITY_WARNING, State = STATE_SUCCESS\<rparr>, None),
       (\<lparr>FuncName = ''m'', Message = ''Block height stuck 3 times. Current height: 99'',
         Severity = SEVERITY_WARNING, State = STATE_SUCCESS\<rparr>, None),
       (\<lparr>FuncName = ''m'', Message = ''Block height stuck more than 3 times. Current height: 99'',
         Severity = SEVERITY_CRITICAL, State = STATE_SUCCESS\<rparr>, None)],
      \<lparr>prevHeight = 99, warningCount = 4, criticalCount = 3\<rparr>)"
    by (simp add: pluginFeature_def body_as_result_def hexToInt64_def SetString_def natScan_def
        digitVal_def IsInt64_def Int64_def fmtInt_def digitChar_def char_of_def bit_0)
  from four_stuck_ticks [OF a o1 s(1) o1 s(2) o2 s(3) o2 s(4) r] r
  show ?thesis by blast
qed

subsection \<open>No result leaves the initial severity or state\<close>

text \<open>
  C10: every value the call returns has a severity among INFO, WARNING and CRITICAL and
  a state among SUCCESS and FAILURE: the UNKNOWN and NONE the result starts with are
  overwritten on every path.
\<close>

theorem every_result_classified:
  "Severity (fst (fst (pluginFeature Unmarshal execute_method post g)))
     \<in> {SEVERITY_INFO, SEVERITY_WARNING, SEVERITY_CRITICAL}
   \<and> State (fst (fst (pluginFeature Unmarshal execute_method post g)))
     \<in> {STATE_SUCCESS, STATE_FAILURE}"
  by (simp add: pluginFeature_def Let_def split: sum.split)

end
